theory Spec2Isabelle
  imports Complex_Main "HOL-Library.Multiset" "HOL-Library.Product_Lexorder"
begin

section \<open>Campus Vault: the data model of \<^verbatim>\<open>app.py\<close>\<close>

text \<open>
  The application keeps two tables, \<^verbatim>\<open>user\<close> and \<^verbatim>\<open>transaction\<close>, and a
  login session that remembers the id of the authenticated user. Each route handler is
  embedded as a function from the state before the request to either an error (the
  request aborts and nothing is committed) or an outcome: the state after the request,
  the messages flashed while it ran, and the response.

  Columns of type \<^verbatim>\<open>db.Float\<close> are embedded as rationals: the type holds the exact
  value of every finite double, and arithmetic on it is the exact one. Rounding of sums,
  infinities and NaN are therefore not part of this development; no statement below
  relies on a law of arithmetic beyond \<open>0 - 0 = 0\<close>.
\<close>

type_synonym pyfloat = rat

record datetime =
  year :: nat
  month :: nat
  day :: nat
  hour :: nat
  minute :: nat
  second :: nat
  microsecond :: nat

record user =
  id_u :: nat
  username :: string
  password :: string
  budget :: pyfloat

record transaction =
  id_t :: nat
  description :: string
  amount :: pyfloat
  type_t :: string
  date :: datetime
  user_id :: nat

text \<open>
  Tables are lists of rows in insertion order. \<open>session_user_id\<close> is what
  \<^verbatim>\<open>login_user\<close> stores and \<^verbatim>\<open>logout_user\<close> clears.
\<close>

record state =
  users :: "user list"
  transactions :: "transaction list"
  session_user_id :: "nat option"

record dashboard =
  dash_user :: user
  dash_transactions :: "transaction list"
  dash_balance :: pyfloat
  dash_income :: pyfloat
  dash_expenses :: pyfloat

datatype http_method = GET | POST

datatype response =
    Redirect string
  | Render_index dashboard
  | Render_login
  | Render_register
  | Render_settings user
  | Attachment string string string

text \<open>
  \<open>NotFound\<close> is the 404 of \<^verbatim>\<open>get_or_404\<close>; \<open>InternalServerError\<close> stands for
  every exception no handler catches (\<^verbatim>\<open>TypeError\<close> and \<^verbatim>\<open>ValueError\<close> of
  \<^verbatim>\<open>float\<close>, the \<^verbatim>\<open>IntegrityError\<close> of a NOT NULL column, the
  \<^verbatim>\<open>AttributeError\<close> of hashing \<^verbatim>\<open>None\<close>).
\<close>

datatype error = NotFound | InternalServerError

record outcome =
  after :: state
  flashed :: "(string \<times> string) list"
  resp :: response

type_synonym result = "error + outcome"

definition initial_state :: state where
  "initial_state = \<lparr>users = [], transactions = [], session_user_id = None\<rparr>"

section \<open>Library behaviour the handlers rely on\<close>

subsection \<open>Primary keys and ordering\<close>

text \<open>
  An \<^verbatim>\<open>INTEGER PRIMARY KEY\<close> column of SQLite receives one more than the largest key in
  the table, and 1 in an empty table.
\<close>

definition next_id :: "nat list \<Rightarrow> nat" where
  "next_id ids = Suc (fold max ids 0)"

definition date_key :: "datetime \<Rightarrow> nat \<times> nat \<times> nat \<times> nat \<times> nat \<times> nat \<times> nat" where
  "date_key d = (year d, month d, day d, hour d, minute d, second d, microsecond d)"

text \<open>
  \<^verbatim>\<open>order_by(Transaction.date.desc())\<close>: latest first. SQL leaves the order of rows with
  equal dates open; here they come out in reverse insertion order.
\<close>

definition order_by_date_desc :: "transaction list \<Rightarrow> transaction list" where
  "order_by_date_desc ts = rev (sort_key (\<lambda>t. date_key (date t)) ts)"

text \<open>Python's \<^verbatim>\<open>sum\<close>: accumulate from 0, left to right.\<close>

definition sum_py :: "pyfloat list \<Rightarrow> pyfloat" where
  "sum_py xs = foldl (+) 0 xs"

subsection \<open>Formatting numbers and dates\<close>

definition digit_char :: "nat \<Rightarrow> char" where
  "digit_char d = ''0123456789'' ! d"

fun digits :: "nat \<Rightarrow> string" where
  "digits n = (if n < 10 then [digit_char n] else digits (n div 10) @ [digit_char (n mod 10)])"

declare digits.simps [simp del]

definition zfill :: "nat \<Rightarrow> string \<Rightarrow> string" where
  "zfill w s = replicate (w - length s) (CHR ''0'') @ s"

text \<open>
  \<^verbatim>\<open>strftime('%Y-%m-%d')\<close>. The dates of the table come from the server clock, so
  their years have four digits; the padding of earlier years depends on the platform.
\<close>

definition strftime_ymd :: "datetime \<Rightarrow> string" where
  "strftime_ymd d =
     zfill 4 (digits (year d)) @ ''-'' @ zfill 2 (digits (month d)) @ ''-'' @ zfill 2 (digits (day d))"

definition round_half_even :: "rat \<Rightarrow> int" where
  "round_half_even r =
     (let f = \<lfloor>r\<rfloor>; d = r - of_int f
      in if d < 1 / 2 then f else if 1 / 2 < d then f + 1 else if even f then f else f + 1)"

text \<open>The hundredths of \<open>\<bar>x\<bar>\<close>, correctly rounded, as the format \<^verbatim>\<open>.2f\<close> does.\<close>

definition hundredths :: "pyfloat \<Rightarrow> nat" where
  "hundredths x = nat (round_half_even (\<bar>x\<bar> * 100))"

definition sign_prefix :: "pyfloat \<Rightarrow> string" where
  "sign_prefix x = (if x < 0 then ''-'' else [])"

fun group_thousands :: "string \<Rightarrow> string" where
  "group_thousands ds =
     (if length ds \<le> 3 then ds
      else group_thousands (take (length ds - 3) ds) @ '','' @ drop (length ds - 3) ds)"

declare group_thousands.simps [simp del]

text \<open>\<^verbatim>\<open>f"{x:.2f}"\<close> and \<^verbatim>\<open>f"{x:,.2f}"\<close>.\<close>

definition format_2f :: "pyfloat \<Rightarrow> string" where
  "format_2f x =
     sign_prefix x @ digits (hundredths x div 100) @ ''.'' @ zfill 2 (digits (hundredths x mod 100))"

definition format_comma_2f :: "pyfloat \<Rightarrow> string" where
  "format_comma_2f x =
     sign_prefix x @ group_thousands (digits (hundredths x div 100)) @ ''.''
       @ zfill 2 (digits (hundredths x mod 100))"

subsection \<open>The characters outside ASCII of the flashed messages, as UTF-8\<close>

definition warning_sign :: string where
  "warning_sign = [CHR 0xE2, CHR 0x9A, CHR 0xA0, CHR 0xEF, CHR 0xB8, CHR 0x8F]"

definition naira_sign :: string where
  "naira_sign = [CHR 0xE2, CHR 0x82, CHR 0xA6]"

definition money_mouth_face :: string where
  "money_mouth_face = [CHR 0xF0, CHR 0x9F, CHR 0xA4, CHR 0x91]"

definition check_mark :: string where
  "check_mark = [CHR 0xE2, CHR 0x9C, CHR 0x85]"

subsection \<open>The \<^verbatim>\<open>csv\<close> writer with its default dialect\<close>

text \<open>
  Fields are separated by commas and a row ends with CR LF. A field holding a comma, a
  double quote, CR or LF is enclosed in double quotes, with every double quote inside it
  doubled; a row that is a single empty field is written as two double quotes.
\<close>

definition csv_special :: "char \<Rightarrow> bool" where
  "csv_special c = (c = CHR '','' \<or> c = CHR 0x22 \<or> c = CHR 0x0D \<or> c = CHR 0x0A)"

definition csv_field :: "string \<Rightarrow> string" where
  "csv_field f =
     (if list_ex csv_special f
      then [CHR 0x22] @ concat (map (\<lambda>c. if c = CHR 0x22 then [c, c] else [c]) f) @ [CHR 0x22]
      else f)"

fun join :: "string \<Rightarrow> string list \<Rightarrow> string" where
  "join sep [] = []"
| "join sep [f] = f"
| "join sep (f # g # fs) = f @ sep @ join sep (g # fs)"

definition csv_writerow :: "string list \<Rightarrow> string" where
  "csv_writerow row =
     (if row = [[]] then [CHR 0x22, CHR 0x22] else join '','' (map csv_field row))
       @ [CHR 0x0D, CHR 0x0A]"

section \<open>The session\<close>

definition load_user :: "state \<Rightarrow> nat \<Rightarrow> user option" where
  "load_user st i = find (\<lambda>u. id_u u = i) (users st)"

definition current_user :: "state \<Rightarrow> user option" where
  "current_user st = (case session_user_id st of None \<Rightarrow> None | Some i \<Rightarrow> load_user st i)"

text \<open>
  \<^verbatim>\<open>@login_required\<close> with \<^verbatim>\<open>login_view = 'login'\<close>: a request without an
  authenticated user is answered by a redirect to the login view and the handler does not
  run. The handler receives the user that \<^verbatim>\<open>current_user\<close> denotes in the source.
\<close>

definition login_required :: "state \<Rightarrow> (user \<Rightarrow> result) \<Rightarrow> result" where
  "login_required st handler =
     (case current_user st of
        None \<Rightarrow> Inr \<lparr>after = st,
                      flashed = [(''Please log in to access this page.'', ''message'')],
                      resp = Redirect ''login''\<rparr>
      | Some cu \<Rightarrow> handler cu)"

section \<open>The route handlers\<close>

text \<open>
  Form fields are \<open>string option\<close>: \<^verbatim>\<open>request.form.get\<close> yields \<^verbatim>\<open>None\<close> for a
  field the request does not carry. Python's \<^verbatim>\<open>float\<close>, werkzeug's
  \<^verbatim>\<open>generate_password_hash\<close> (with the salt it draws) and
  \<^verbatim>\<open>check_password_hash\<close>, and the two clocks are parameters of the handlers that
  use them.
\<close>

definition index :: "datetime \<Rightarrow> state \<Rightarrow> result" where
  "index now st = login_required st (\<lambda>cu.
     let all_transactions =
           order_by_date_desc (filter (\<lambda>t. user_id t = id_u cu) (transactions st));
         monthly_transactions =
           filter (\<lambda>t. month (date t) = month now \<and> year (date t) = year now) all_transactions;
         total_income =
           sum_py (map amount (filter (\<lambda>t. type_t t = ''Income'') monthly_transactions));
         total_expense =
           sum_py (map amount (filter (\<lambda>t. type_t t = ''Expense'') monthly_transactions));
         balance = total_income - total_expense
     in Inr \<lparr>after = st, flashed = [],
             resp = Render_index \<lparr>dash_user = cu, dash_transactions = monthly_transactions,
                      dash_balance = balance, dash_income = total_income,
                      dash_expenses = total_expense\<rparr>\<rparr>)"

definition query_user_by_username :: "state \<Rightarrow> string option \<Rightarrow> user option" where
  "query_user_by_username st uname =
     (case uname of None \<Rightarrow> None | Some n \<Rightarrow> find (\<lambda>u. username u = n) (users st))"

definition login :: "(string \<Rightarrow> string \<Rightarrow> bool) \<Rightarrow> state \<Rightarrow> http_method \<Rightarrow>
    string option \<Rightarrow> string option \<Rightarrow> result" where
  "login check_password_hash st meth uname pw =
     (let failed = Inr \<lparr>after = st,
                         flashed = [(''Login Failed. Check your spelling.'', ''message'')],
                         resp = Render_login\<rparr>
      in if meth = POST then
           (case query_user_by_username st uname of
              None \<Rightarrow> failed
            | Some u \<Rightarrow>
                (case pw of
                   None \<Rightarrow> Inl InternalServerError
                 | Some p \<Rightarrow>
                     if check_password_hash (password u) p
                     then Inr \<lparr>after = st\<lparr>session_user_id := Some (id_u u)\<rparr>, flashed = [],
                               resp = Redirect ''index''\<rparr>
                     else failed))
         else Inr \<lparr>after = st, flashed = [], resp = Render_login\<rparr>)"

definition register :: "(string \<Rightarrow> string \<Rightarrow> string) \<Rightarrow> string \<Rightarrow> state \<Rightarrow> http_method \<Rightarrow>
    string option \<Rightarrow> string option \<Rightarrow> result" where
  "register generate_password_hash salt st meth uname pw =
     (if meth = POST then
        (if query_user_by_username st uname \<noteq> None
         then Inr \<lparr>after = st, flashed = [(''Username already exists.'', ''message'')],
                   resp = Redirect ''register''\<rparr>
         else
           (case pw of
              None \<Rightarrow> Inl InternalServerError
            | Some p \<Rightarrow>
                (case uname of
                   None \<Rightarrow> Inl InternalServerError
                 | Some n \<Rightarrow>
                     let new_user = \<lparr>id_u = next_id (map id_u (users st)), username = n,
                                      password = generate_password_hash salt p, budget = 5000\<rparr>
                     in Inr \<lparr>after = st\<lparr>users := users st @ [new_user],
                                          session_user_id := Some (id_u new_user)\<rparr>,
                               flashed = [], resp = Redirect ''index''\<rparr>)))
      else Inr \<lparr>after = st, flashed = [], resp = Render_register\<rparr>)"

definition logout :: "state \<Rightarrow> result" where
  "logout st = login_required st (\<lambda>cu.
     Inr \<lparr>after = st\<lparr>session_user_id := None\<rparr>, flashed = [], resp = Redirect ''login''\<rparr>)"

definition add_transaction :: "(string \<Rightarrow> pyfloat option) \<Rightarrow> datetime \<Rightarrow> state \<Rightarrow>
    string option \<Rightarrow> string option \<Rightarrow> string option \<Rightarrow> result" where
  "add_transaction float_py utcnow st description_in amount_in type_in = login_required st (\<lambda>cu.
     case amount_in of
       None \<Rightarrow> Inl InternalServerError
     | Some s \<Rightarrow>
         (case float_py s of
            None \<Rightarrow> Inl InternalServerError
          | Some amt \<Rightarrow>
              let message =
                    (if type_in = Some ''Expense'' \<and> amt > budget cu
                     then (warning_sign @ '' Alert! You exceeded your budget of '' @ naira_sign
                             @ format_comma_2f (budget cu) @ ''!'', ''error'')
                     else if type_in = Some ''Income''
                     then (money_mouth_face @ '' Nice! Income of '' @ naira_sign
                             @ format_comma_2f amt @ '' added.'', ''success'')
                     else (''Transaction added successfully.'', ''success''))
              in (case description_in of
                    None \<Rightarrow> Inl InternalServerError
                  | Some d \<Rightarrow>
                      (case type_in of
                         None \<Rightarrow> Inl InternalServerError
                       | Some ty \<Rightarrow>
                           let new_trans = \<lparr>id_t = next_id (map id_t (transactions st)),
                                             description = d, amount = amt, type_t = ty,
                                             date = utcnow, user_id = id_u cu\<rparr>
                           in Inr \<lparr>after = st\<lparr>transactions := transactions st @ [new_trans]\<rparr>,
                                   flashed = [message], resp = Redirect ''index''\<rparr>))))"


definition settings :: "(string \<Rightarrow> pyfloat option) \<Rightarrow> state \<Rightarrow> http_method \<Rightarrow>
    string option \<Rightarrow> result" where
  "settings float_py st meth budget_in = login_required st (\<lambda>cu.
     if meth = POST then
       (case budget_in of
          None \<Rightarrow> Inl InternalServerError
        | Some s \<Rightarrow>
            (case float_py s of
               None \<Rightarrow> Inl InternalServerError
             | Some new_budget \<Rightarrow>
                 Inr \<lparr>after = st\<lparr>users := map (\<lambda>u. if id_u u = id_u cu
                                                       then u\<lparr>budget := new_budget\<rparr> else u)
                                              (users st)\<rparr>,
                      flashed = [(check_mark @ '' Budget updated to '' @ naira_sign
                                    @ format_comma_2f new_budget, ''success'')],
                      resp = Redirect ''index''\<rparr>))
     else Inr \<lparr>after = st, flashed = [], resp = Render_settings cu\<rparr>)"

definition csv_header :: "string list" where
  "csv_header = [''Date'', ''Description'', ''Type'', ''Amount (NGN)'']"

definition csv_row :: "transaction \<Rightarrow> string list" where
  "csv_row t = [strftime_ymd (date t), description t, type_t t, format_2f (amount t)]"

definition export_transactions :: "state \<Rightarrow> result" where
  "export_transactions st = login_required st (\<lambda>cu.
     let ts = order_by_date_desc (filter (\<lambda>t. user_id t = id_u cu) (transactions st))
     in Inr \<lparr>after = st, flashed = [],
             resp = Attachment (concat (map csv_writerow (csv_header # map csv_row ts)))
                      ''text/csv'' ''attachment; filename=CampusVault_Statement.csv''\<rparr>)"

section \<open>Example data\<close>

text \<open>
  A small store and the values of the library functions on the inputs of the examples.
  \<open>example_float\<close> lists the value of Python's \<^verbatim>\<open>float\<close> on the strings that occur;
  \<open>example_hash\<close> and \<open>example_check\<close> are stand-ins with the interface of the werkzeug
  functions.
\<close>

definition example_float :: "string \<Rightarrow> pyfloat option" where
  "example_float s =
     (if s = ''3000.00'' then Some 3000
      else if s = ''3000.01'' then Some (300001 / 100)
      else if s = ''6000'' then Some 6000
      else if s = ''1200.50'' then Some (2401 / 2)
      else if s = ''-5'' then Some (- 5)
      else None)"

definition example_hash :: "string \<Rightarrow> string \<Rightarrow> string" where
  "example_hash salt p = ''pbkdf2:sha256$'' @ salt @ ''$'' @ rev p"

definition example_check :: "string \<Rightarrow> string \<Rightarrow> bool" where
  "example_check h p = (length p \<le> length h \<and> drop (length h - length p) h = rev p)"

definition mar1 :: datetime where
  "mar1 = \<lparr>year = 2024, month = 3, day = 1, hour = 9, minute = 30, second = 0, microsecond = 0\<rparr>"
definition mar5 :: datetime where
  "mar5 = \<lparr>year = 2024, month = 3, day = 5, hour = 18, minute = 2, second = 11, microsecond = 250\<rparr>"
definition feb9 :: datetime where
  "feb9 = \<lparr>year = 2024, month = 2, day = 9, hour = 12, minute = 0, second = 0, microsecond = 0\<rparr>"
definition mar7 :: datetime where
  "mar7 = \<lparr>year = 2024, month = 3, day = 7, hour = 8, minute = 15, second = 40, microsecond = 7\<rparr>"
definition mar20 :: datetime where
  "mar20 = \<lparr>year = 2024, month = 3, day = 20, hour = 0, minute = 0, second = 0, microsecond = 0\<rparr>"

definition alice :: user where
  "alice = \<lparr>id_u = 1, username = ''alice'', password = ''pbkdf2:sha256$na$terces'', budget = 5000\<rparr>"
definition bob :: user where
  "bob = \<lparr>id_u = 2, username = ''bob'', password = ''pbkdf2:sha256$cl$drowssap'', budget = 3000\<rparr>"

definition salary :: transaction where
  "salary = \<lparr>id_t = 1, description = ''Salary'', amount = 2401 / 2, type_t = ''Income'', date = mar1, user_id = 1\<rparr>"
definition books :: transaction where
  "books = \<lparr>id_t = 2, description = ''Books, pens'', amount = 300, type_t = ''Expense'', date = mar5, user_id = 1\<rparr>"
definition rent :: transaction where
  "rent = \<lparr>id_t = 3, description = ''Rent'', amount = 1000, type_t = ''Expense'', date = feb9, user_id = 1\<rparr>"
definition gift :: transaction where
  "gift = \<lparr>id_t = 4, description = ''Gift'', amount = 50, type_t = ''Income'', date = mar7, user_id = 2\<rparr>"

definition example_state :: state where
  "example_state = \<lparr>users = [alice, bob], transactions = [salary, books, rent, gift], session_user_id = Some 1\<rparr>"


section \<open>Auxiliary facts\<close>

lemma cu_ex: "current_user example_state = Some alice"
  by (simp add: current_user_def load_user_def example_state_def alice_def bob_def)

lemma login_required_Some: "current_user st = Some cu \<Longrightarrow> login_required st h = h cu"
  by (simp add: login_required_def)


lemma find_map_budget:
  "find (\<lambda>u. id_u u = i) (map (\<lambda>u. if id_u u = j then u\<lparr>budget := b\<rparr> else u) us)
     = map_option (\<lambda>u. if id_u u = j then u\<lparr>budget := b\<rparr> else u) (find (\<lambda>u. id_u u = i) us)"
  by (induction us) auto

lemma find_Some_pred: "find P xs = Some x \<Longrightarrow> P x \<and> x \<in> set xs"
  by (induction xs) (auto split: if_splits)

lemma current_user_id: "current_user st = Some cu \<Longrightarrow> session_user_id st = Some (id_u cu)"
  by (auto simp: current_user_def load_user_def split: option.splits dest: find_Some_pred)

lemma current_user_mem: "current_user st = Some cu \<Longrightarrow> cu \<in> set (users st)"
  by (auto simp: current_user_def load_user_def split: option.splits dest: find_Some_pred)

lemma current_user_after_budget:
  assumes "current_user st = Some cu"
  shows "current_user (st\<lparr>users := map (\<lambda>u. if id_u u = id_u cu then u\<lparr>budget := b\<rparr> else u) (users st)\<rparr>)
           = Some (cu\<lparr>budget := b\<rparr>)"
  using assms current_user_id[OF assms]
  by (simp add: current_user_def load_user_def find_map_budget)

lemma settings_post:
  assumes "current_user st = Some cu" and "float_py s = Some b"
  shows "settings float_py st POST (Some s) =
           Inr \<lparr>after = st\<lparr>users := map (\<lambda>u. if id_u u = id_u cu then u\<lparr>budget := b\<rparr> else u) (users st)\<rparr>,
                flashed = [(check_mark @ '' Budget updated to '' @ naira_sign @ format_comma_2f b, ''success'')],
                resp = Redirect ''index''\<rparr>"
  using assms by (simp add: settings_def login_required_Some)

lemma add_transaction_ok:
  assumes "current_user st = Some cu" and "float_py s = Some amt"
  shows "add_transaction float_py utcnow st (Some d) (Some s) (Some ty) =
           Inr \<lparr>after = st\<lparr>transactions := transactions st @
                    [\<lparr>id_t = next_id (map id_t (transactions st)), description = d, amount = amt,
                      type_t = ty, date = utcnow, user_id = id_u cu\<rparr>]\<rparr>,
                flashed =
                  [if ty = ''Expense'' \<and> budget cu < amt
                   then (warning_sign @ '' Alert! You exceeded your budget of '' @ naira_sign
                           @ format_comma_2f (budget cu) @ ''!'', ''error'')
                   else if ty = ''Income''
                   then (money_mouth_face @ '' Nice! Income of '' @ naira_sign
                           @ format_comma_2f amt @ '' added.'', ''success'')
                   else (''Transaction added successfully.'', ''success'')],
                resp = Redirect ''index''\<rparr>"
  using assms by (simp add: add_transaction_def login_required_Some Let_def)


lemma hundredths_numeral: "hundredths (numeral n) = numeral n * 100"
  by (simp add: hundredths_def round_half_even_def Let_def)

lemmas format_eval =
  format_comma_2f_def format_2f_def hundredths_numeral sign_prefix_def digits.simps digit_char_def
  group_thousands.simps zfill_def

lemma format_3000: "format_comma_2f 3000 = ''3,000.00''"
  by (simp add: format_eval)


section \<open>The alert of \<^verbatim>\<open>add_transaction\<close>\<close>



lemma foldl_plus_sum_list: "foldl (+) a xs = a + sum_list (xs :: rat list)"
  by (induction xs arbitrary: a) (simp_all add: add.assoc)

lemma sum_py_sum_list: "sum_py xs = sum_list xs"
  by (simp add: sum_py_def foldl_plus_sum_list)


lemma set_order_by_date_desc: "set (order_by_date_desc ts) = set ts"
  by (simp add: order_by_date_desc_def)


lemma filter_order_by_date_desc:
  "filter P (order_by_date_desc ts) = order_by_date_desc (filter P ts)"
  by (simp add: order_by_date_desc_def rev_filter[symmetric] filter_sort)

lemma index_ok:
  assumes "current_user st = Some cu"
  shows "index now st =
     Inr \<lparr>after = st, flashed = [],
          resp = Render_index
            \<lparr>dash_user = cu,
             dash_transactions = filter (\<lambda>t. month (date t) = month now \<and> year (date t) = year now)
                (order_by_date_desc (filter (\<lambda>t. user_id t = id_u cu) (transactions st))),
             dash_balance =
                sum_list (map amount (filter (\<lambda>t. type_t t = ''Income'')
                  (filter (\<lambda>t. month (date t) = month now \<and> year (date t) = year now)
                    (order_by_date_desc (filter (\<lambda>t. user_id t = id_u cu) (transactions st))))))
              - sum_list (map amount (filter (\<lambda>t. type_t t = ''Expense'')
                  (filter (\<lambda>t. month (date t) = month now \<and> year (date t) = year now)
                    (order_by_date_desc (filter (\<lambda>t. user_id t = id_u cu) (transactions st)))))),
             dash_income =
                sum_list (map amount (filter (\<lambda>t. type_t t = ''Income'')
                  (filter (\<lambda>t. month (date t) = month now \<and> year (date t) = year now)
                    (order_by_date_desc (filter (\<lambda>t. user_id t = id_u cu) (transactions st)))))),
             dash_expenses =
                sum_list (map amount (filter (\<lambda>t. type_t t = ''Expense'')
                  (filter (\<lambda>t. month (date t) = month now \<and> year (date t) = year now)
                    (order_by_date_desc (filter (\<lambda>t. user_id t = id_u cu) (transactions st))))))\<rparr>\<rparr>"
  using assms by (simp add: index_def login_required_Some Let_def sum_py_sum_list)

section \<open>The dashboard\<close>





lemma find_None_iff_image: "find (\<lambda>x. f x = i) xs = None \<longleftrightarrow> i \<notin> f ` set xs"
  by (induction xs) auto

lemma find_distinct_key:
  "distinct (map f xs) \<Longrightarrow> x \<in> set xs \<Longrightarrow> find (\<lambda>y. f y = f x) xs = Some x"
  by (induction xs) (auto simp: image_iff)




section \<open>Deleting a transaction\<close>




lemma current_user_transactions_update:
  "current_user (st\<lparr>transactions := ts\<rparr>) = current_user st"
  by (simp add: current_user_def load_user_def split: option.splits)

section \<open>What \<^verbatim>\<open>add_transaction\<close> leaves alone\<close>



lemma totals_ignore_other_type:
  assumes "\<not> P t"
  shows "filter P (filter M (order_by_date_desc (filter Ow (xs @ [t]))))
           = filter P (filter M (order_by_date_desc (filter Ow xs)))"
proof -
  have "filter P (filter M (order_by_date_desc (filter Ow (xs @ [t]))))
          = order_by_date_desc (filter P (filter M (filter Ow (xs @ [t]))))"
    by (simp only: filter_order_by_date_desc)
  also have "filter P (filter M (filter Ow (xs @ [t]))) = filter P (filter M (filter Ow xs))"
    using assms by simp
  also have "order_by_date_desc (filter P (filter M (filter Ow xs)))
          = filter P (filter M (order_by_date_desc (filter Ow xs)))"
    by (simp only: filter_order_by_date_desc)
  finally show ?thesis .
qed

section \<open>A type that is neither Income nor Expense\<close>

text \<open>
  Claim C10. When a logged-in user adds a transaction whose type is neither
  \<^verbatim>\<open>'Income'\<close> nor \<^verbatim>\<open>'Expense'\<close> (the amount parses, the description is
  present), the row is stored with that type, the plain acknowledgment is the message,
  and at every clock reading the dashboard shows the same income, expenses and balance
  after the request as before it.
\<close>

theorem add_transaction_other_type:
  assumes "current_user st = Some cu" and "float_py s = Some amt"
    and "ty \<noteq> ''Income''" and "ty \<noteq> ''Expense''"
  shows "\<exists>r. add_transaction float_py utcnow st (Some d) (Some s) (Some ty) = Inr r
           \<and> transactions (after r) = transactions st @
                [\<lparr>id_t = next_id (map id_t (transactions st)), description = d, amount = amt,
                  type_t = ty, date = utcnow, user_id = id_u cu\<rparr>]
           \<and> flashed r = [(''Transaction added successfully.'', ''success'')]
           \<and> (\<forall>now. \<exists>d0 d1.
                 index now st = Inr \<lparr>after = st, flashed = [], resp = Render_index d0\<rparr>
               \<and> index now (after r) = Inr \<lparr>after = after r, flashed = [], resp = Render_index d1\<rparr>
               \<and> dash_income d1 = dash_income d0
               \<and> dash_expenses d1 = dash_expenses d0
               \<and> dash_balance d1 = dash_balance d0)"
proof -
  let ?new = "\<lparr>id_t = next_id (map id_t (transactions st)), description = d, amount = amt,
                  type_t = ty, date = utcnow, user_id = id_u cu\<rparr>"
  let ?msg = "if ty = ''Expense'' \<and> budget cu < amt
                   then (warning_sign @ '' Alert! You exceeded your budget of '' @ naira_sign
                           @ format_comma_2f (budget cu) @ ''!'', ''error'')
                   else if ty = ''Income''
                   then (money_mouth_face @ '' Nice! Income of '' @ naira_sign
                           @ format_comma_2f amt @ '' added.'', ''success'')
                   else (''Transaction added successfully.'', ''success'')"
  let ?st' = "st\<lparr>transactions := transactions st @ [?new]\<rparr>"
  let ?r = "\<lparr>after = ?st', flashed = [?msg], resp = Redirect ''index''\<rparr>"
  have ok: "add_transaction float_py utcnow st (Some d) (Some s) (Some ty) = Inr ?r"
    by (rule add_transaction_ok[where float_py = float_py and s = s, OF assms(1,2)])
  have msg: "flashed ?r = [(''Transaction added successfully.'', ''success'')]"
    using assms(3,4) by simp
  have cu': "current_user ?st' = Some cu"
    using assms(1) by (simp add: current_user_transactions_update)
  have ni: "\<not> type_t ?new = ''Income''" and ne: "\<not> type_t ?new = ''Expense''"
    using assms(3,4) by simp_all
  have totals: "\<exists>d0 d1.
                 index now st = Inr \<lparr>after = st, flashed = [], resp = Render_index d0\<rparr>
               \<and> index now (after ?r) = Inr \<lparr>after = after ?r, flashed = [], resp = Render_index d1\<rparr>
               \<and> dash_income d1 = dash_income d0
               \<and> dash_expenses d1 = dash_expenses d0
               \<and> dash_balance d1 = dash_balance d0" for now
  proof -
    let ?own = "\<lambda>t. user_id t = id_u cu"
    let ?mon = "\<lambda>t. month (date t) = month now \<and> year (date t) = year now"
    let ?I = "\<lambda>xs. sum_list (map amount (filter (\<lambda>t. type_t t = ''Income'')
                 (filter ?mon (order_by_date_desc (filter ?own xs)))))"
    let ?E = "\<lambda>xs. sum_list (map amount (filter (\<lambda>t. type_t t = ''Expense'')
                 (filter ?mon (order_by_date_desc (filter ?own xs)))))"
    let ?D = "\<lambda>xs. \<lparr>dash_user = cu,
                 dash_transactions = filter ?mon (order_by_date_desc (filter ?own xs)),
                 dash_balance = ?I xs - ?E xs, dash_income = ?I xs, dash_expenses = ?E xs\<rparr>"
    have i0: "index now st = Inr \<lparr>after = st, flashed = [], resp = Render_index (?D (transactions st))\<rparr>"
      by (rule index_ok[OF assms(1)])
    have i1: "index now ?st' = Inr \<lparr>after = ?st', flashed = [],
                 resp = Render_index (?D (transactions st @ [?new]))\<rparr>"
      using index_ok[OF cu', of now] by simp
    have eI: "?I (transactions st @ [?new]) = ?I (transactions st)"
      by (simp only: totals_ignore_other_type[of "\<lambda>t. type_t t = ''Income''", OF ni])
    have eE: "?E (transactions st @ [?new]) = ?E (transactions st)"
      by (simp only: totals_ignore_other_type[of "\<lambda>t. type_t t = ''Expense''", OF ne])
    show ?thesis
      apply (rule exI[of _ "?D (transactions st)"])
      apply (rule exI[of _ "?D (transactions st @ [?new])"])
      apply (intro conjI)
          apply (rule i0)
         apply (simp only: outcome.simps i1)
        apply (simp only: dashboard.simps eI)
       apply (simp only: dashboard.simps eE)
      apply (simp only: dashboard.simps eI eE)
      done
  qed
  show ?thesis
    apply (rule exI[of _ ?r])
    apply (intro conjI allI)
       apply (rule ok)
      apply simp
     apply (rule msg)
    apply (rule totals)
    done
qed

theorem add_transaction_other_type_witness:
  "current_user example_state = Some alice \<and> example_float ''6000'' = Some 6000
   \<and> ''Gift'' \<noteq> ''Income'' \<and> ''Gift'' \<noteq> ''Expense''
   \<and> (\<exists>r. add_transaction example_float mar20 example_state (Some ''Prize'') (Some ''6000'')
             (Some ''Gift'') = Inr r
         \<and> transactions (after r) = transactions example_state @
              [\<lparr>id_t = next_id (map id_t (transactions example_state)), description = ''Prize'',
                amount = 6000, type_t = ''Gift'', date = mar20, user_id = id_u alice\<rparr>]
         \<and> flashed r = [(''Transaction added successfully.'', ''success'')]
         \<and> (\<forall>now. \<exists>d0 d1.
                 index now example_state = Inr \<lparr>after = example_state, flashed = [], resp = Render_index d0\<rparr>
               \<and> index now (after r) = Inr \<lparr>after = after r, flashed = [], resp = Render_index d1\<rparr>
               \<and> dash_income d1 = dash_income d0
               \<and> dash_expenses d1 = dash_expenses d0
               \<and> dash_balance d1 = dash_balance d0))"
proof -
  have f: "example_float ''6000'' = Some 6000" by (simp add: example_float_def)
  have n1: "''Gift'' \<noteq> ''Income''" and n2: "''Gift'' \<noteq> ''Expense''" by simp_all
  note inst = add_transaction_other_type[where float_py = example_float and s = "''6000''",
      OF cu_ex f n1 n2, of mar20 "''Prize''"]
  show ?thesis
    by (intro conjI) (rule cu_ex, rule f, rule n1, rule n2, rule inst)
qed

lemma same_id_same_row:
  assumes "distinct (map f xs)" and "x \<in> set xs" and "y \<in> set xs"
  shows "f y = f x \<longleftrightarrow> y = x"
  using assms by (auto simp: distinct_map dest: inj_onD)

lemma map_budget_only_row:
  assumes "distinct (map id_u us)" and "cu \<in> set us"
  shows "map (\<lambda>u. if id_u u = id_u cu then u\<lparr>budget := b\<rparr> else u) us
           = map (\<lambda>u. if u = cu then cu\<lparr>budget := b\<rparr> else u) us"
proof (rule map_cong[OF refl])
  fix u assume "u \<in> set us"
  with assms have "id_u u = id_u cu \<longleftrightarrow> u = cu" by (rule same_id_same_row)
  then show "(if id_u u = id_u cu then u\<lparr>budget := b\<rparr> else u) = (if u = cu then cu\<lparr>budget := b\<rparr> else u)"
    by auto
qed

lemma settings_get:
  assumes "current_user st = Some cu"
  shows "settings float_py st GET budget_in = Inr \<lparr>after = st, flashed = [], resp = Render_settings cu\<rparr>"
  using assms by (simp add: settings_def login_required_Some)

section \<open>The budget setting\<close>

text \<open>
  Claim C9. For a logged-in user, in a store whose user ids are distinct (they are primary
  keys), a POST to \<open>settings\<close> with a budget that parses to \<open>b\<close> replaces the budget of
  that user's row by \<open>b\<close> and changes no other row, no other column, no transaction and
  not the session; it flashes the confirmation with \<open>b\<close> formatted by \<^verbatim>\<open>,.2f\<close> and
  redirects to the dashboard. The alert of an \<open>add_transaction\<close> that follows compares
  the amount with \<open>b\<close>. A GET changes nothing and renders the settings page.
\<close>

theorem settings_update_budget:
  assumes "current_user st = Some cu" and "distinct (map id_u (users st))"
  shows "(\<forall>s b. float_py s = Some b \<longrightarrow>
           (\<exists>r. settings float_py st POST (Some s) = Inr r
              \<and> users (after r) = map (\<lambda>u. if u = cu then cu\<lparr>budget := b\<rparr> else u) (users st)
              \<and> transactions (after r) = transactions st
              \<and> session_user_id (after r) = session_user_id st
              \<and> current_user (after r) = Some (cu\<lparr>budget := b\<rparr>)
              \<and> flashed r = [(check_mark @ '' Budget updated to '' @ naira_sign
                                @ format_comma_2f b, ''success'')]
              \<and> resp r = Redirect ''index''
              \<and> (\<forall>utcnow s' amt d ty. float_py s' = Some amt \<longrightarrow>
                    (\<exists>r'. add_transaction float_py utcnow (after r) (Some d) (Some s') (Some ty) = Inr r'
                       \<and> flashed r' =
                           [if ty = ''Expense'' \<and> b < amt
                            then (warning_sign @ '' Alert! You exceeded your budget of '' @ naira_sign
                                    @ format_comma_2f b @ ''!'', ''error'')
                            else if ty = ''Income''
                            then (money_mouth_face @ '' Nice! Income of '' @ naira_sign
                                    @ format_comma_2f amt @ '' added.'', ''success'')
                            else (''Transaction added successfully.'', ''success'')]))))
       \<and> (\<forall>budget_in. settings float_py st GET budget_in
              = Inr \<lparr>after = st, flashed = [], resp = Render_settings cu\<rparr>)"
proof (rule conjI; intro allI impI)
  fix s b
  assume fb: "float_py s = Some b"
  let ?st' = "st\<lparr>users := map (\<lambda>u. if id_u u = id_u cu then u\<lparr>budget := b\<rparr> else u) (users st)\<rparr>"
  let ?r = "\<lparr>after = ?st',
             flashed = [(check_mark @ '' Budget updated to '' @ naira_sign @ format_comma_2f b, ''success'')],
             resp = Redirect ''index''\<rparr>"
  have ok: "settings float_py st POST (Some s) = Inr ?r"
    by (rule settings_post[where float_py = float_py and s = s, OF assms(1) fb])
  have us: "users (after ?r) = map (\<lambda>u. if u = cu then cu\<lparr>budget := b\<rparr> else u) (users st)"
    using map_budget_only_row[OF assms(2) current_user_mem[OF assms(1)], of b] by simp
  have cu': "current_user (after ?r) = Some (cu\<lparr>budget := b\<rparr>)"
    using current_user_after_budget[OF assms(1), of b] by simp
  have later: "\<exists>r'. add_transaction float_py utcnow (after ?r) (Some d) (Some s') (Some ty) = Inr r'
                       \<and> flashed r' =
                           [if ty = ''Expense'' \<and> b < amt
                            then (warning_sign @ '' Alert! You exceeded your budget of '' @ naira_sign
                                    @ format_comma_2f b @ ''!'', ''error'')
                            else if ty = ''Income''
                            then (money_mouth_face @ '' Nice! Income of '' @ naira_sign
                                    @ format_comma_2f amt @ '' added.'', ''success'')
                            else (''Transaction added successfully.'', ''success'')]"
    if fa: "float_py s' = Some amt" for utcnow s' amt d ty
  proof -
    let ?new = "\<lparr>id_t = next_id (map id_t (transactions (after ?r))), description = d, amount = amt,
                  type_t = ty, date = utcnow, user_id = id_u (cu\<lparr>budget := b\<rparr>)\<rparr>"
    let ?msg = "if ty = ''Expense'' \<and> budget (cu\<lparr>budget := b\<rparr>) < amt
                   then (warning_sign @ '' Alert! You exceeded your budget of '' @ naira_sign
                           @ format_comma_2f (budget (cu\<lparr>budget := b\<rparr>)) @ ''!'', ''error'')
                   else if ty = ''Income''
                   then (money_mouth_face @ '' Nice! Income of '' @ naira_sign
                           @ format_comma_2f amt @ '' added.'', ''success'')
                   else (''Transaction added successfully.'', ''success'')"
    let ?r' = "\<lparr>after = (after ?r)\<lparr>transactions := transactions (after ?r) @ [?new]\<rparr>,
                flashed = [?msg], resp = Redirect ''index''\<rparr>"
    have a: "add_transaction float_py utcnow (after ?r) (Some d) (Some s') (Some ty) = Inr ?r'"
      by (rule add_transaction_ok[where float_py = float_py and s = s', OF cu' fa])
    show ?thesis
      by (rule exI[of _ ?r'], rule conjI, rule a, simp)
  qed
  show "\<exists>r. settings float_py st POST (Some s) = Inr r
              \<and> users (after r) = map (\<lambda>u. if u = cu then cu\<lparr>budget := b\<rparr> else u) (users st)
              \<and> transactions (after r) = transactions st
              \<and> session_user_id (after r) = session_user_id st
              \<and> current_user (after r) = Some (cu\<lparr>budget := b\<rparr>)
              \<and> flashed r = [(check_mark @ '' Budget updated to '' @ naira_sign
                                @ format_comma_2f b, ''success'')]
              \<and> resp r = Redirect ''index''
              \<and> (\<forall>utcnow s' amt d ty. float_py s' = Some amt \<longrightarrow>
                    (\<exists>r'. add_transaction float_py utcnow (after r) (Some d) (Some s') (Some ty) = Inr r'
                       \<and> flashed r' =
                           [if ty = ''Expense'' \<and> b < amt
                            then (warning_sign @ '' Alert! You exceeded your budget of '' @ naira_sign
                                    @ format_comma_2f b @ ''!'', ''error'')
                            else if ty = ''Income''
                            then (money_mouth_face @ '' Nice! Income of '' @ naira_sign
                                    @ format_comma_2f amt @ '' added.'', ''success'')
                            else (''Transaction added successfully.'', ''success'')]))"
    apply (rule exI[of _ ?r])
    apply (intro conjI allI impI)
           apply (rule ok)
          apply (rule us)
         apply simp
        apply simp
       apply (rule cu')
      apply simp
     apply simp
    apply (erule later)
    done
next
  fix budget_in
  show "settings float_py st GET budget_in = Inr \<lparr>after = st, flashed = [], resp = Render_settings cu\<rparr>"
    by (rule settings_get[OF assms(1)])
qed

theorem settings_update_budget_witness:
  "current_user example_state = Some alice
   \<and> distinct (map id_u (users example_state))
   \<and> example_float ''3000.00'' = Some 3000
   \<and> (\<exists>r. settings example_float example_state POST (Some ''3000.00'') = Inr r
         \<and> users (after r) = [alice\<lparr>budget := 3000\<rparr>, bob]
         \<and> transactions (after r) = transactions example_state
         \<and> flashed r = [(check_mark @ '' Budget updated to '' @ naira_sign @ ''3,000.00'', ''success'')]
         \<and> resp r = Redirect ''index'')
   \<and> settings example_float example_state GET None
        = Inr \<lparr>after = example_state, flashed = [], resp = Render_settings alice\<rparr>"
proof -
  have dist: "distinct (map id_u (users example_state))"
    by (simp add: example_state_def alice_def bob_def)
  have f: "example_float ''3000.00'' = Some 3000" by (simp add: example_float_def)
  have ne: "bob \<noteq> alice" by (simp add: alice_def bob_def)
  have us: "map (\<lambda>u. if u = alice then alice\<lparr>budget := 3000\<rparr> else u) (users example_state)
              = [alice\<lparr>budget := 3000\<rparr>, bob]"
    using ne by (simp add: example_state_def)
  note inst = settings_update_budget[OF cu_ex dist, of example_float]
  from inst[THEN conjunct1, rule_format, OF f]
  obtain r where r: "settings example_float example_state POST (Some ''3000.00'') = Inr r"
    and u: "users (after r) = map (\<lambda>u. if u = alice then alice\<lparr>budget := 3000\<rparr> else u) (users example_state)"
    and t: "transactions (after r) = transactions example_state"
    and m: "flashed r = [(check_mark @ '' Budget updated to '' @ naira_sign
                                @ format_comma_2f 3000, ''success'')]"
    and rd: "resp r = Redirect ''index''"
    by blast
  have p1: "\<exists>r. settings example_float example_state POST (Some ''3000.00'') = Inr r
         \<and> users (after r) = [alice\<lparr>budget := 3000\<rparr>, bob]
         \<and> transactions (after r) = transactions example_state
         \<and> flashed r = [(check_mark @ '' Budget updated to '' @ naira_sign @ ''3,000.00'', ''success'')]
         \<and> resp r = Redirect ''index''"
    apply (rule exI[of _ r])
    apply (intro conjI)
        apply (rule r)
       apply (simp only: u us)
      apply (rule t)
     apply (simp only: m format_3000)
    apply (rule rd)
    done
  show ?thesis
    by (intro conjI) (rule cu_ex, rule dist, rule f, rule p1, rule inst[THEN conjunct2, rule_format])
qed

lemma find_append_last:
  "find P (xs @ [y]) = (case find P xs of None \<Rightarrow> (if P y then Some y else None) | Some x \<Rightarrow> Some x)"
  by (induction xs) auto

lemma fold_max_ge_init: "a \<le> fold max ids (a :: nat)"
  by (induction ids arbitrary: a) (auto intro: order_trans[OF max.cobounded2])

lemma fold_max_ge_elem: "x \<in> set ids \<Longrightarrow> x \<le> fold max ids (a :: nat)"
proof (induction ids arbitrary: a)
  case Nil
  then show ?case by simp
next
  case (Cons i ids)
  show ?case
  proof (cases "x = i")
    case True
    have "i \<le> max i a" by simp
    also have "\<dots> \<le> fold max ids (max i a)" by (rule fold_max_ge_init)
    finally show ?thesis using True by simp
  next
    case False
    with Cons.prems have "x \<in> set ids" by simp
    then show ?thesis using Cons.IH by simp
  qed
qed

lemma next_id_fresh: "next_id ids \<notin> set ids"
proof
  assume "next_id ids \<in> set ids"
  then have "next_id ids \<le> fold max ids 0" by (rule fold_max_ge_elem)
  then show False by (simp add: next_id_def)
qed

lemma query_user_None:
  "n \<notin> username ` set (users st) \<Longrightarrow> query_user_by_username st (Some n) = None"
  by (simp add: query_user_by_username_def find_None_iff_image)

lemma query_user_Some_mem:
  "query_user_by_username st uname = Some u \<Longrightarrow> u \<in> set (users st) \<and> uname = Some (username u)"
  by (auto simp: query_user_by_username_def split: option.splits dest: find_Some_pred)

lemma query_user_exists:
  "n \<in> username ` set (users st) \<Longrightarrow> query_user_by_username st (Some n) \<noteq> None"
  by (simp add: query_user_by_username_def find_None_iff_image)

lemma query_user_distinct:
  "distinct (map username (users st)) \<Longrightarrow> u \<in> set (users st) \<Longrightarrow>
     query_user_by_username st (Some (username u)) = Some u"
  by (simp add: query_user_by_username_def find_distinct_key)

section \<open>Logging in\<close>

text \<open>
  Claim C6. In a store whose usernames are distinct (the column is unique): a POST with
  the name of a user and a password that \<^verbatim>\<open>check_password_hash\<close> accepts against the
  stored hash sets the session to that user and redirects to the dashboard. A POST with a
  name no user has, and a POST with the name of a user and a password the check
  rejects, have one and the same outcome: the state is unchanged, the message is the
  generic one and the login page is rendered. Conversely, whenever \<open>login\<close> answers with
  the redirect to the dashboard, the request was a POST naming a user whose stored hash
  the check accepted for the submitted password.
\<close>

theorem login_outcomes:
  assumes "distinct (map username (users st))"
  shows "(\<forall>u p. u \<in> set (users st) \<and> check_password_hash (password u) p \<longrightarrow>
            login check_password_hash st POST (Some (username u)) (Some p)
              = Inr \<lparr>after = st\<lparr>session_user_id := Some (id_u u)\<rparr>, flashed = [],
                     resp = Redirect ''index''\<rparr>)
       \<and> (\<forall>n pw. n \<notin> username ` set (users st) \<longrightarrow>
            login check_password_hash st POST (Some n) pw
              = Inr \<lparr>after = st, flashed = [(''Login Failed. Check your spelling.'', ''message'')],
                     resp = Render_login\<rparr>)
       \<and> (\<forall>u p. u \<in> set (users st) \<and> \<not> check_password_hash (password u) p \<longrightarrow>
            login check_password_hash st POST (Some (username u)) (Some p)
              = Inr \<lparr>after = st, flashed = [(''Login Failed. Check your spelling.'', ''message'')],
                     resp = Render_login\<rparr>)
       \<and> (\<forall>meth uname pw r. login check_password_hash st meth uname pw = Inr r
                \<and> resp r = Redirect ''index'' \<longrightarrow>
            meth = POST \<and>
            (\<exists>u p. u \<in> set (users st) \<and> uname = Some (username u) \<and> pw = Some p
                  \<and> check_password_hash (password u) p
                  \<and> after r = st\<lparr>session_user_id := Some (id_u u)\<rparr>))"
proof (rule conjI[OF _ conjI[OF _ conjI]]; intro allI impI)
  fix u p
  assume h: "u \<in> set (users st) \<and> check_password_hash (password u) p"
  then have "query_user_by_username st (Some (username u)) = Some u"
    using query_user_distinct[OF assms] by simp
  with h show "login check_password_hash st POST (Some (username u)) (Some p)
              = Inr \<lparr>after = st\<lparr>session_user_id := Some (id_u u)\<rparr>, flashed = [],
                     resp = Redirect ''index''\<rparr>"
    by (simp add: login_def)
next
  fix n pw
  assume "n \<notin> username ` set (users st)"
  then have "query_user_by_username st (Some n) = None" by (rule query_user_None)
  then show "login check_password_hash st POST (Some n) pw
              = Inr \<lparr>after = st, flashed = [(''Login Failed. Check your spelling.'', ''message'')],
                     resp = Render_login\<rparr>"
    by (simp add: login_def)
next
  fix u p
  assume h: "u \<in> set (users st) \<and> \<not> check_password_hash (password u) p"
  then have "query_user_by_username st (Some (username u)) = Some u"
    using query_user_distinct[OF assms] by simp
  with h show "login check_password_hash st POST (Some (username u)) (Some p)
              = Inr \<lparr>after = st, flashed = [(''Login Failed. Check your spelling.'', ''message'')],
                     resp = Render_login\<rparr>"
    by (simp add: login_def)
next
  fix meth uname pw r
  assume h: "login check_password_hash st meth uname pw = Inr r \<and> resp r = Redirect ''index''"
  show "meth = POST \<and>
            (\<exists>u p. u \<in> set (users st) \<and> uname = Some (username u) \<and> pw = Some p
                  \<and> check_password_hash (password u) p
                  \<and> after r = st\<lparr>session_user_id := Some (id_u u)\<rparr>)"
  proof (cases "query_user_by_username st uname")
    case None
    with h show ?thesis
      by (auto simp: login_def Let_def split: if_splits)
  next
    case (Some u)
    note mem = query_user_Some_mem[OF Some]
    from h Some have m: "meth = POST"
      by (auto simp: login_def Let_def split: if_splits)
    from h Some m obtain p where p: "pw = Some p"
      by (cases pw) (auto simp: login_def Let_def)
    from h Some m p have c: "check_password_hash (password u) p"
      by (auto simp: login_def Let_def split: if_splits)
    from h Some m p c have a: "after r = st\<lparr>session_user_id := Some (id_u u)\<rparr>"
      by (auto simp: login_def Let_def)
    show ?thesis
      using m mem p c a by blast
  qed
qed

theorem login_outcomes_witness:
  "distinct (map username (users example_state))
   \<and> (alice \<in> set (users example_state) \<and> example_check (password alice) ''secret'')
   \<and> ''carol'' \<notin> username ` set (users example_state)
   \<and> (alice \<in> set (users example_state) \<and> \<not> example_check (password alice) ''guess'')
   \<and> login example_check example_state POST (Some ''alice'') (Some ''secret'')
        = Inr \<lparr>after = example_state\<lparr>session_user_id := Some 1\<rparr>, flashed = [],
               resp = Redirect ''index''\<rparr>
   \<and> login example_check example_state POST (Some ''carol'') (Some ''secret'')
        = Inr \<lparr>after = example_state,
               flashed = [(''Login Failed. Check your spelling.'', ''message'')],
               resp = Render_login\<rparr>
   \<and> login example_check example_state POST (Some ''alice'') (Some ''guess'')
        = Inr \<lparr>after = example_state,
               flashed = [(''Login Failed. Check your spelling.'', ''message'')],
               resp = Render_login\<rparr>"
proof -
  have dist: "distinct (map username (users example_state))"
    by (simp add: example_state_def alice_def bob_def)
  have h1: "alice \<in> set (users example_state) \<and> example_check (password alice) ''secret''"
    by (simp add: example_state_def alice_def example_check_def)
  have h2: "''carol'' \<notin> username ` set (users example_state)"
    by (simp add: example_state_def alice_def bob_def)
  have h3: "alice \<in> set (users example_state) \<and> \<not> example_check (password alice) ''guess''"
    by (simp add: example_state_def alice_def example_check_def)
  have nm: "username alice = ''alice''" and i: "id_u alice = 1" by (simp_all add: alice_def)
  note inst = login_outcomes[OF dist, of example_check]
  have p1: "login example_check example_state POST (Some ''alice'') (Some ''secret'')
        = Inr \<lparr>after = example_state\<lparr>session_user_id := Some 1\<rparr>, flashed = [],
               resp = Redirect ''index''\<rparr>"
    using inst[THEN conjunct1, rule_format, OF h1] unfolding nm i .
  have p2: "login example_check example_state POST (Some ''carol'') (Some ''secret'')
        = Inr \<lparr>after = example_state,
               flashed = [(''Login Failed. Check your spelling.'', ''message'')],
               resp = Render_login\<rparr>"
    using inst[THEN conjunct2, THEN conjunct1, rule_format, OF h2] .
  have p3: "login example_check example_state POST (Some ''alice'') (Some ''guess'')
        = Inr \<lparr>after = example_state,
               flashed = [(''Login Failed. Check your spelling.'', ''message'')],
               resp = Render_login\<rparr>"
    using inst[THEN conjunct2, THEN conjunct2, THEN conjunct1, rule_format, OF h3] unfolding nm .
  show ?thesis
    by (rule conjI[OF dist conjI[OF h1 conjI[OF h2 conjI[OF h3 conjI[OF p1 conjI[OF p2 p3]]]]]])
qed

lemma register_duplicate:
  assumes "query_user_by_username st uname \<noteq> None"
  shows "register generate_password_hash salt st POST uname pw
           = Inr \<lparr>after = st, flashed = [(''Username already exists.'', ''message'')],
                  resp = Redirect ''register''\<rparr>"
  using assms by (simp add: register_def)

lemma register_fresh:
  assumes "query_user_by_username st (Some n) = None"
  shows "register generate_password_hash salt st POST (Some n) (Some p)
           = Inr \<lparr>after = st\<lparr>users := users st @
                      [\<lparr>id_u = next_id (map id_u (users st)), username = n,
                        password = generate_password_hash salt p, budget = 5000\<rparr>],
                    session_user_id := Some (next_id (map id_u (users st)))\<rparr>,
                  flashed = [], resp = Redirect ''index''\<rparr>"
  using assms by (simp add: register_def Let_def)

lemma register_Inr_username_taken:
  assumes "register generate_password_hash salt st POST (Some n) pw = Inr r"
  shows "n \<in> username ` set (users (after r))"
proof (cases "query_user_by_username st (Some n)")
  case None
  with assms obtain p where p: "pw = Some p"
    by (cases pw) (auto simp: register_def)
  from assms show ?thesis
    unfolding p register_fresh[OF None] by auto
next
  case (Some u)
  then have "register generate_password_hash salt st POST (Some n) pw
           = Inr \<lparr>after = st, flashed = [(''Username already exists.'', ''message'')],
                  resp = Redirect ''register''\<rparr>"
    by (intro register_duplicate) simp
  with assms have "after r = st" by auto
  moreover from query_user_Some_mem[OF Some] have "n \<in> username ` set (users st)" by auto
  ultimately show ?thesis by simp
qed

section \<open>Registering\<close>

text \<open>
  Claim C5. A POST to \<open>register\<close> with a username some user already has leaves the whole
  state (every account and every transaction) as it was, flashes
  \<^verbatim>\<open>'Username already exists.'\<close> and redirects back to the form. With a username no user
  has and a password, it appends a user with the next id, that username, the value of
  \<^verbatim>\<open>generate_password_hash\<close> on the password (with its salt) as the stored password, and
  the budget 5000; it leaves the other rows and the transactions alone, makes the new
  user the current user and redirects to the dashboard. A registration with the same
  username that follows any registration that returned is answered as a duplicate.
\<close>

theorem register_outcomes:
  "(\<forall>n pw. n \<in> username ` set (users st) \<longrightarrow>
       register generate_password_hash salt st POST (Some n) pw
         = Inr \<lparr>after = st, flashed = [(''Username already exists.'', ''message'')],
                resp = Redirect ''register''\<rparr>)
   \<and> (\<forall>n p. n \<notin> username ` set (users st) \<longrightarrow>
        (\<exists>r. register generate_password_hash salt st POST (Some n) (Some p) = Inr r
           \<and> users (after r) = users st @
                [\<lparr>id_u = next_id (map id_u (users st)), username = n,
                  password = generate_password_hash salt p, budget = 5000\<rparr>]
           \<and> transactions (after r) = transactions st
           \<and> current_user (after r) =
                Some \<lparr>id_u = next_id (map id_u (users st)), username = n,
                      password = generate_password_hash salt p, budget = 5000\<rparr>
           \<and> flashed r = []
           \<and> resp r = Redirect ''index''))
   \<and> (\<forall>n pw r salt' pw'. register generate_password_hash salt st POST (Some n) pw = Inr r \<longrightarrow>
        register generate_password_hash salt' (after r) POST (Some n) pw'
          = Inr \<lparr>after = after r, flashed = [(''Username already exists.'', ''message'')],
                 resp = Redirect ''register''\<rparr>)"
proof (rule conjI[OF _ conjI]; intro allI impI)
  fix n pw
  assume "n \<in> username ` set (users st)"
  then have "query_user_by_username st (Some n) \<noteq> None" by (rule query_user_exists)
  then show "register generate_password_hash salt st POST (Some n) pw
         = Inr \<lparr>after = st, flashed = [(''Username already exists.'', ''message'')],
                resp = Redirect ''register''\<rparr>"
    by (rule register_duplicate)
next
  fix n p
  assume "n \<notin> username ` set (users st)"
  then have q: "query_user_by_username st (Some n) = None" by (rule query_user_None)
  let ?new = "\<lparr>id_u = next_id (map id_u (users st)), username = n,
                password = generate_password_hash salt p, budget = 5000\<rparr>"
  let ?r = "\<lparr>after = st\<lparr>users := users st @ [?new],
                          session_user_id := Some (next_id (map id_u (users st)))\<rparr>,
             flashed = [], resp = Redirect ''index''\<rparr>"
  have ok: "register generate_password_hash salt st POST (Some n) (Some p) = Inr ?r"
    by (rule register_fresh[OF q])
  have "next_id (map id_u (users st)) \<notin> set (map id_u (users st))" by (rule next_id_fresh)
  then have "find (\<lambda>u. id_u u = next_id (map id_u (users st))) (users st) = None"
    by (simp add: find_None_iff_image)
  then have cu: "current_user (after ?r) = Some ?new"
    by (simp add: current_user_def load_user_def find_append_last)
  show "\<exists>r. register generate_password_hash salt st POST (Some n) (Some p) = Inr r
           \<and> users (after r) = users st @ [?new]
           \<and> transactions (after r) = transactions st
           \<and> current_user (after r) = Some ?new
           \<and> flashed r = []
           \<and> resp r = Redirect ''index''"
    by (rule exI[of _ ?r], intro conjI, rule ok, simp, simp, rule cu, simp, simp)
next
  fix n pw r salt' pw'
  assume "register generate_password_hash salt st POST (Some n) pw = Inr r"
  then have "n \<in> username ` set (users (after r))" by (rule register_Inr_username_taken)
  then have "query_user_by_username (after r) (Some n) \<noteq> None" by (rule query_user_exists)
  then show "register generate_password_hash salt' (after r) POST (Some n) pw'
          = Inr \<lparr>after = after r, flashed = [(''Username already exists.'', ''message'')],
                 resp = Redirect ''register''\<rparr>"
    by (rule register_duplicate)
qed

theorem register_outcomes_witness:
  "''alice'' \<in> username ` set (users example_state)
   \<and> ''carol'' \<notin> username ` set (users example_state)
   \<and> register example_hash ''na'' example_state POST (Some ''alice'') (Some ''other'')
        = Inr \<lparr>after = example_state, flashed = [(''Username already exists.'', ''message'')],
               resp = Redirect ''register''\<rparr>
   \<and> (\<exists>r. register example_hash ''xy'' example_state POST (Some ''carol'') (Some ''pw'') = Inr r
         \<and> users (after r) = [alice, bob,
              \<lparr>id_u = 3, username = ''carol'', password = ''pbkdf2:sha256$xy$wp'', budget = 5000\<rparr>]
         \<and> transactions (after r) = transactions example_state
         \<and> current_user (after r) =
              Some \<lparr>id_u = 3, username = ''carol'', password = ''pbkdf2:sha256$xy$wp'', budget = 5000\<rparr>
         \<and> resp r = Redirect ''index''
         \<and> register example_hash ''zz'' (after r) POST (Some ''carol'') (Some ''pw'')
              = Inr \<lparr>after = after r, flashed = [(''Username already exists.'', ''message'')],
                     resp = Redirect ''register''\<rparr>)"
proof -
  have h1: "''alice'' \<in> username ` set (users example_state)"
    by (simp add: example_state_def alice_def bob_def)
  have h2: "''carol'' \<notin> username ` set (users example_state)"
    by (simp add: example_state_def alice_def bob_def)
  have n: "next_id (map id_u (users example_state)) = 3"
    by (simp add: next_id_def example_state_def alice_def bob_def)
  have hs: "example_hash ''xy'' ''pw'' = ''pbkdf2:sha256$xy$wp''"
    by (simp add: example_hash_def)
  have us: "users example_state = [alice, bob]" by (simp add: example_state_def)
  note inst = register_outcomes[of example_state example_hash]
  have p1: "register example_hash ''na'' example_state POST (Some ''alice'') (Some ''other'')
        = Inr \<lparr>after = example_state, flashed = [(''Username already exists.'', ''message'')],
               resp = Redirect ''register''\<rparr>"
    using inst[of "''na''", THEN conjunct1, rule_format, OF h1] .
  from inst[of "''xy''", THEN conjunct2, THEN conjunct1, rule_format, OF h2, of "''pw''"]
  obtain r where r: "register example_hash ''xy'' example_state POST (Some ''carol'') (Some ''pw'') = Inr r"
    and u: "users (after r) = users example_state @
                [\<lparr>id_u = next_id (map id_u (users example_state)), username = ''carol'',
                  password = example_hash ''xy'' ''pw'', budget = 5000\<rparr>]"
    and t: "transactions (after r) = transactions example_state"
    and c: "current_user (after r) =
                Some \<lparr>id_u = next_id (map id_u (users example_state)), username = ''carol'',
                      password = example_hash ''xy'' ''pw'', budget = 5000\<rparr>"
    and rd: "resp r = Redirect ''index''"
    by blast
  note again = inst[of "''xy''", THEN conjunct2, THEN conjunct2, rule_format, OF r, of "''zz''" "Some ''pw''"]
  have p2: "\<exists>r. register example_hash ''xy'' example_state POST (Some ''carol'') (Some ''pw'') = Inr r
         \<and> users (after r) = [alice, bob,
              \<lparr>id_u = 3, username = ''carol'', password = ''pbkdf2:sha256$xy$wp'', budget = 5000\<rparr>]
         \<and> transactions (after r) = transactions example_state
         \<and> current_user (after r) =
              Some \<lparr>id_u = 3, username = ''carol'', password = ''pbkdf2:sha256$xy$wp'', budget = 5000\<rparr>
         \<and> resp r = Redirect ''index''
         \<and> register example_hash ''zz'' (after r) POST (Some ''carol'') (Some ''pw'')
              = Inr \<lparr>after = after r, flashed = [(''Username already exists.'', ''message'')],
                     resp = Redirect ''register''\<rparr>"
    apply (rule exI[of _ r])
    apply (intro conjI)
         apply (rule r)
        apply (simp only: u n hs)
        apply (simp only: us append.simps)
       apply (rule t)
      apply (simp only: c n hs)
     apply (rule rd)
    apply (rule again)
    done
  show ?thesis
    by (rule conjI[OF h1 conjI[OF h2 conjI[OF p1 p2]]])
qed

end
